theory Spec2Isabelle
  imports Complex_Main
begin

section \<open>JavaScript values read by the handlers of App.jsx\<close>

text \<open>
  A number that \<open>JSON.parse\<close> can produce: a finite double, given by its exact
  rational value, or an infinity (from a literal such as \<open>1e999\<close>). Negative zero
  behaves as zero in everything the handlers do (truthiness, \<open>toFixed\<close>) and is
  \<open>Finite 0\<close>.
\<close>

datatype jsnum = Finite rat | PosInfinity | NegInfinity

text \<open>
  The values of a parsed response body, and \<open>undefined\<close>, which reading an absent
  property gives. An object is the list of its own properties, each key once. A
  string is a list of 8-bit characters; the literals of App.jsx are ASCII.
\<close>

datatype jsval =
    JUndefined
  | JNull
  | JBool bool
  | JNum jsnum
  | JStr string
  | JArr "jsval list"
  | JObj "(string \<times> jsval) list"

text \<open>
  The run-time errors the handlers can provoke. Their messages, and the digits
  \<open>Number::toString\<close> prints for a finite number, differ between engines, so the
  engine is a parameter of the model.
\<close>

datatype type_error =
    ReadOfNullish jsval string
  | NotAFunction string
  | NoPrimitive

record engine =
  type_error_message :: "type_error \<Rightarrow> string"
  number_to_string :: "rat \<Rightarrow> string"

text \<open>
  A thrown value, as the \<open>catch\<close> block of \<open>handleSubmit\<close> sees it: only its
  \<open>message\<close> property is read. \<open>None\<close> is a thrown value with no such property
  (the event a failing \<open>FileReader\<close> rejects with).
\<close>

datatype thrown = Thrown (message: "string option")

definition throw_type_error :: "engine \<Rightarrow> type_error \<Rightarrow> thrown" where
  "throw_type_error eng te = Thrown (Some (type_error_message eng te))"

text \<open>
  \<open>v.k\<close> for the property names the handlers read (\<open>success\<close>, \<open>error\<close>,
  \<open>predictions\<close>, \<open>top_prediction\<close>, \<open>species\<close>, \<open>confidence\<close>), none of
  which a prototype provides: reading from \<open>undefined\<close> or \<open>null\<close> throws, an object
  gives its own property or \<open>undefined\<close>, every other value gives \<open>undefined\<close>.
\<close>

fun get_prop :: "engine \<Rightarrow> jsval \<Rightarrow> string \<Rightarrow> thrown + jsval" where
  "get_prop eng JUndefined k = Inl (throw_type_error eng (ReadOfNullish JUndefined k))"
| "get_prop eng JNull k = Inl (throw_type_error eng (ReadOfNullish JNull k))"
| "get_prop eng (JObj kvs) k = Inr (case map_of kvs k of None \<Rightarrow> JUndefined | Some v \<Rightarrow> v)"
| "get_prop eng v k = Inr JUndefined"

text \<open>Truthiness, as \<open>if (data.success)\<close> and \<open>data.error || ...\<close> test it.\<close>

fun truthy :: "jsval \<Rightarrow> bool" where
  "truthy JUndefined = False"
| "truthy JNull = False"
| "truthy (JBool b) = b"
| "truthy (JNum (Finite x)) = (x \<noteq> 0)"
| "truthy (JNum PosInfinity) = True"
| "truthy (JNum NegInfinity) = True"
| "truthy (JStr s) = (s \<noteq> [])"
| "truthy (JArr xs) = True"
| "truthy (JObj kvs) = True"

text \<open>
  \<open>ToString\<close>, which the template literal applies to \<open>species\<close> and the \<open>Error\<close>
  constructor to its argument. A string is itself. An array joins its elements with
  commas, \<open>undefined\<close> and \<open>null\<close> elements printing as nothing. A parsed object prints
  as \<open>[object Object]\<close> unless it has an own property \<open>toString\<close>, which no parsed
  value can make callable: then the conversion throws.
\<close>

fun to_string :: "engine \<Rightarrow> jsval \<Rightarrow> thrown + string"
  and join_elements :: "engine \<Rightarrow> jsval list \<Rightarrow> thrown + string" where
  "to_string eng JUndefined = Inr ''undefined''"
| "to_string eng JNull = Inr ''null''"
| "to_string eng (JBool b) = Inr (if b then ''true'' else ''false'')"
| "to_string eng (JNum (Finite x)) = Inr (number_to_string eng x)"
| "to_string eng (JNum PosInfinity) = Inr ''Infinity''"
| "to_string eng (JNum NegInfinity) = Inr ''-Infinity''"
| "to_string eng (JStr s) = Inr s"
| "to_string eng (JArr xs) = join_elements eng xs"
| "to_string eng (JObj kvs) =
     (if ''toString'' \<in> fst ` set kvs then Inl (throw_type_error eng NoPrimitive)
      else Inr ''[object Object]'')"
| "join_elements eng [] = Inr []"
| "join_elements eng (x # xs) =
     (case (if x = JUndefined \<or> x = JNull then Inr [] else to_string eng x) of
        Inl e \<Rightarrow> Inl e
      | Inr s \<Rightarrow>
          (if xs = [] then Inr s
           else case join_elements eng xs of
                  Inl e \<Rightarrow> Inl e
                | Inr t \<Rightarrow> Inr (s @ '','' @ t)))"

section \<open>\<open>Number.prototype.toFixed(2)\<close>\<close>

text \<open>The decimal digits of a natural number, most significant first.\<close>

definition digit_char :: "nat \<Rightarrow> char" where
  "digit_char d = ''0123456789'' ! d"

fun decimal :: "nat \<Rightarrow> string" where
  "decimal n = (if n < 10 then [digit_char n] else decimal (n div 10) @ [digit_char (n mod 10)])"

declare decimal.simps [simp del]

text \<open>
  \<open>toFixed(2)\<close> on a value \<open>0 \<le> x < 10^21\<close>: \<open>n\<close> is the integer with \<open>n / 100\<close>
  nearest to \<open>x\<close>, the larger one on a tie; its digits are padded with zeros to three
  places and the point is put before the last two.
\<close>

definition fixed2_digits :: "rat \<Rightarrow> string" where
  "fixed2_digits x =
     (let n = nat \<lfloor>x * 100 + 1 / 2\<rfloor>;
          m = decimal n;
          m' = (if length m \<le> 2 then replicate (3 - length m) (CHR ''0'') @ m else m);
          k = length m'
      in take (k - 2) m' @ ''.'' @ drop (k - 2) m')"

text \<open>
  \<open>toFixed(2)\<close> on any number: infinities print as \<open>ToString\<close> prints them; a negative
  value prints a minus sign and its absolute value; from \<open>10^21\<close> on the digits are
  those of \<open>Number::toString\<close>.
\<close>

fun toFixed2 :: "engine \<Rightarrow> jsnum \<Rightarrow> string" where
  "toFixed2 eng PosInfinity = ''Infinity''"
| "toFixed2 eng NegInfinity = ''-Infinity''"
| "toFixed2 eng (Finite x) =
     (if x < 0 then ''-'' else '''') @
     (if 10 ^ 21 \<le> \<bar>x\<bar> then number_to_string eng \<bar>x\<bar> else fixed2_digits \<bar>x\<bar>)"

text \<open>
  The call \<open>c.toFixed(2)\<close> on a value \<open>c\<close>: only a number has the method; on
  \<open>undefined\<close> and \<open>null\<close> the property read throws, on any other value the call does.
\<close>

fun call_toFixed2 :: "engine \<Rightarrow> jsval \<Rightarrow> thrown + string" where
  "call_toFixed2 eng JUndefined = Inl (throw_type_error eng (ReadOfNullish JUndefined ''toFixed''))"
| "call_toFixed2 eng JNull = Inl (throw_type_error eng (ReadOfNullish JNull ''toFixed''))"
| "call_toFixed2 eng (JNum n) = Inr (toFixed2 eng n)"
| "call_toFixed2 eng v = Inl (throw_type_error eng (NotAFunction ''toFixed''))"

section \<open>The component state\<close>

record js_file =
  file_type :: string
  file_size :: nat

text \<open>
  The \<open>useState\<close> cells of \<open>App\<close>. \<open>predictions\<close> holds whatever
  \<open>setPredictions\<close> was given, which is \<open>data.predictions\<close> unexamined.
\<close>

record app_state =
  image_st :: "js_file option"
  preview :: "string option"
  predictions :: jsval
  loading :: bool
  error :: "string option"
  success :: "string option"
  modelInfo :: jsval
  isDragging :: bool

definition initial_state :: app_state where
  "initial_state =
     \<lparr> image_st = None, preview = None, predictions = JArr [], loading = False,
       error = None, success = None, modelInfo = JNull, isDragging = False \<rparr>"

section \<open>\<open>handleImageUpload\<close>\<close>

definition validTypes :: "string list" where
  "validTypes =
     [''image/jpeg'', ''image/png'', ''image/jpg'', ''image/bmp'', ''image/gif'', ''image/webp'']"

text \<open>
  The synchronous part of \<open>handleImageUpload\<close>. The second component is the file
  handed to \<open>FileReader.readAsDataURL\<close>, \<open>None\<close> when the handler returned before.
\<close>

definition handleImageUpload :: "js_file option \<Rightarrow> app_state \<Rightarrow> app_state \<times> js_file option" where
  "handleImageUpload fo s =
     (case fo of
        None \<Rightarrow> (s, None)
      | Some f \<Rightarrow>
          if file_type f \<notin> set validTypes
          then (s\<lparr>error := Some ''Please upload a valid image file (JPEG, PNG, WebP, GIF)''\<rparr>, None)
          else if 16 * 1024 * 1024 < file_size f
          then (s\<lparr>error := Some ''File size too large. Maximum size is 16MB''\<rparr>, None)
          else (s\<lparr>error := None, predictions := JArr []\<rparr>, Some f))"

text \<open>
  \<open>reader.onload\<close>: the reader's result is the data URL of the file, \<open>data:\<close>, the
  MIME type, \<open>;base64,\<close> and the encoded bytes.
\<close>

definition data_url :: "js_file \<Rightarrow> string \<Rightarrow> string" where
  "data_url f b64 = ''data:'' @ file_type f @ '';base64,'' @ b64"

definition reader_onload :: "js_file \<Rightarrow> string \<Rightarrow> app_state \<Rightarrow> app_state" where
  "reader_onload f b64 s = s\<lparr>preview := Some (data_url f b64), image_st := Some f\<rparr>"

definition handleFileInput :: "js_file option \<Rightarrow> app_state \<Rightarrow> app_state \<times> js_file option" where
  "handleFileInput fo s = (case fo of None \<Rightarrow> (s, None) | Some f \<Rightarrow> handleImageUpload (Some f) s)"

definition handleDrop :: "js_file option \<Rightarrow> app_state \<Rightarrow> app_state \<times> js_file option" where
  "handleDrop fo s =
     (let s1 = s\<lparr>isDragging := False\<rparr>
      in case fo of None \<Rightarrow> (s1, None) | Some f \<Rightarrow> handleImageUpload (Some f) s1)"

definition handleDragOver :: "app_state \<Rightarrow> app_state" where
  "handleDragOver s = s\<lparr>isDragging := True\<rparr>"

definition handleDragLeave :: "app_state \<Rightarrow> app_state" where
  "handleDragLeave s = s\<lparr>isDragging := False\<rparr>"

section \<open>\<open>handleSubmit\<close>\<close>

text \<open>
  What the awaited operations of \<open>handleSubmit\<close> deliver: the reader fails (the
  promise is rejected with the reader's event, which has no \<open>message\<close>), \<open>fetch\<close> or
  \<open>response.json()\<close> rejects with an error carrying a message, or a response arrives
  with its \<open>ok\<close> flag and parsed body.
\<close>

datatype outcome =
    ReadFailed
  | FetchRejected string
  | JsonRejected string
  | Responded bool jsval

text \<open>
  The part of \<open>handleSubmit\<close> before its first \<open>await\<close>. The second component is
  the image handed to the reader, \<open>None\<close> when the handler returned at its guard.
\<close>

definition handleSubmit_start :: "app_state \<Rightarrow> app_state \<times> js_file option" where
  "handleSubmit_start s =
     (case image_st s of
        None \<Rightarrow> (s\<lparr>error := Some ''Please select an image first''\<rparr>, None)
      | Some f \<Rightarrow> (s\<lparr>loading := True, error := None, success := None\<rparr>, Some f))"

text \<open>\<open>new Error(data.error || "Prediction failed")\<close>, or what evaluating it throws.\<close>

definition prediction_error :: "engine \<Rightarrow> jsval \<Rightarrow> thrown" where
  "prediction_error eng data =
     (case get_prop eng data ''error'' of
        Inl e \<Rightarrow> e
      | Inr v \<Rightarrow>
          (case to_string eng (if truthy v then v else JStr ''Prediction failed'') of
             Inl e \<Rightarrow> e
           | Inr m \<Rightarrow> Thrown (Some m)))"

text \<open>
  The template literal given to \<open>setSuccess\<close>, read from \<open>data.top_prediction\<close>: each
  substitution is evaluated and converted in turn.
\<close>

definition summary :: "engine \<Rightarrow> jsval \<Rightarrow> thrown + string" where
  "summary eng data =
     (case get_prop eng data ''top_prediction'' of
        Inl e \<Rightarrow> Inl e
      | Inr tp \<Rightarrow>
     (case get_prop eng tp ''species'' of
        Inl e \<Rightarrow> Inl e
      | Inr sp \<Rightarrow>
     (case to_string eng sp of
        Inl e \<Rightarrow> Inl e
      | Inr species \<Rightarrow>
     (case get_prop eng tp ''confidence'' of
        Inl e \<Rightarrow> Inl e
      | Inr c \<Rightarrow>
     (case call_toFixed2 eng c of
        Inl e \<Rightarrow> Inl e
      | Inr confidence \<Rightarrow>
          Inr (''Identified as '' @ species @ '' with '' @ confidence @ ''% confidence''))))))"

text \<open>
  The \<open>try\<close> block after the awaits: the state as the setters called so far leave it,
  and the value thrown, if any.
\<close>

definition try_block :: "engine \<Rightarrow> outcome \<Rightarrow> app_state \<Rightarrow> app_state \<times> thrown option" where
  "try_block eng oc s =
     (case oc of
        ReadFailed \<Rightarrow> (s, Some (Thrown None))
      | FetchRejected m \<Rightarrow> (s, Some (Thrown (Some m)))
      | JsonRejected m \<Rightarrow> (s, Some (Thrown (Some m)))
      | Responded ok data \<Rightarrow>
          if \<not> ok then (s, Some (prediction_error eng data))
          else
            (case get_prop eng data ''success'' of
               Inl e \<Rightarrow> (s, Some e)
             | Inr flag \<Rightarrow>
                 if truthy flag then
                   (case get_prop eng data ''predictions'' of
                      Inl e \<Rightarrow> (s, Some e)
                    | Inr ps \<Rightarrow>
                        (let s1 = s\<lparr>predictions := ps\<rparr>
                         in case summary eng data of
                              Inl e \<Rightarrow> (s1, Some e)
                            | Inr msg \<Rightarrow> (s1\<lparr>success := Some msg\<rparr>, None)))
                 else (s, Some (prediction_error eng data))))"

text \<open>\<open>err.message || "An error occurred during prediction"\<close>.\<close>

definition caught_message :: "thrown \<Rightarrow> string" where
  "caught_message err =
     (case message err of
        None \<Rightarrow> ''An error occurred during prediction''
      | Some m \<Rightarrow> if m = [] then ''An error occurred during prediction'' else m)"

text \<open>The rest of \<open>handleSubmit\<close>: the \<open>try\<close> block, its \<open>catch\<close> and its \<open>finally\<close>.\<close>

definition handleSubmit_settle :: "engine \<Rightarrow> outcome \<Rightarrow> app_state \<Rightarrow> app_state" where
  "handleSubmit_settle eng oc s =
     (case try_block eng oc s of
        (s1, None) \<Rightarrow> s1\<lparr>loading := False\<rparr>
      | (s1, Some err) \<Rightarrow> s1\<lparr>error := Some (caught_message err), loading := False\<rparr>)"

text \<open>One whole run of \<open>handleSubmit\<close>, no other handler running in between.\<close>

definition handleSubmit :: "engine \<Rightarrow> outcome \<Rightarrow> app_state \<Rightarrow> app_state" where
  "handleSubmit eng oc s =
     (case handleSubmit_start s of
        (s1, None) \<Rightarrow> s1
      | (s1, Some f) \<Rightarrow> handleSubmit_settle eng oc s1)"

section \<open>\<open>handleReset\<close> and \<open>fetchModelInfo\<close>\<close>

definition handleReset :: "app_state \<Rightarrow> app_state" where
  "handleReset s =
     s\<lparr>image_st := None, preview := None, predictions := JArr [], error := None, success := None\<rparr>"

datatype health_outcome = HealthRejected string | HealthBody jsval

text \<open>
  \<open>fetchModelInfo\<close>: the new state and the lines written with \<open>console.error\<close>, each
  the label and the message of the error caught.
\<close>

definition fetchModelInfo :: "health_outcome \<Rightarrow> app_state \<Rightarrow> app_state \<times> (string \<times> string) list" where
  "fetchModelInfo ho s =
     (case ho of
        HealthBody data \<Rightarrow> (s\<lparr>modelInfo := data\<rparr>, [])
      | HealthRejected m \<Rightarrow> (s, [(''Failed to fetch model info:'', m)]))"

section \<open>The handlers as events\<close>

text \<open>
  The component with what it is waiting for: the files given to a \<open>FileReader\<close> whose
  \<open>onload\<close> has not run yet, the number of \<open>handleSubmit\<close> calls suspended at an
  \<open>await\<close>, and the lines written to the console.
\<close>

record world =
  app :: app_state
  reading :: "js_file list"
  in_flight :: nat
  console :: "(string \<times> string) list"

definition initial_world :: world where
  "initial_world = \<lparr> app = initial_state, reading = [], in_flight = 0, console = [] \<rparr>"

datatype event =
    FileInput "js_file option"
  | Drop "js_file option"
  | DragOver
  | DragLeave
  | ReaderLoaded nat string
  | SubmitClicked
  | SubmitSettled outcome
  | ResetClicked
  | HealthSettled health_outcome

definition started :: "js_file option \<Rightarrow> js_file list" where
  "started r = (case r of None \<Rightarrow> [] | Some f \<Rightarrow> [f])"

text \<open>
  One event: the handler it runs on the component state. \<open>None\<close> when the event
  cannot happen: a reader that was never started, a request that was never sent.
  The page offers fewer events than this (the submit button is disabled while
  \<open>loading\<close>, the drop zone and the file input are rendered only without a
  preview, the reset button only with one), so what holds after every sequence of
  events here holds after every sequence the page allows.
\<close>

fun fire :: "engine \<Rightarrow> event \<Rightarrow> world \<Rightarrow> world option" where
  "fire eng (FileInput fo) w =
     (case handleFileInput fo (app w) of
        (s, r) \<Rightarrow> Some (w\<lparr>app := s, reading := reading w @ started r\<rparr>))"
| "fire eng (Drop fo) w =
     (case handleDrop fo (app w) of
        (s, r) \<Rightarrow> Some (w\<lparr>app := s, reading := reading w @ started r\<rparr>))"
| "fire eng DragOver w = Some (w\<lparr>app := handleDragOver (app w)\<rparr>)"
| "fire eng DragLeave w = Some (w\<lparr>app := handleDragLeave (app w)\<rparr>)"
| "fire eng (ReaderLoaded i b64) w =
     (if i < length (reading w)
      then Some (w\<lparr>app := reader_onload (reading w ! i) b64 (app w),
                    reading := take i (reading w) @ drop (Suc i) (reading w)\<rparr>)
      else None)"
| "fire eng SubmitClicked w =
     (case handleSubmit_start (app w) of
        (s, r) \<Rightarrow> Some (w\<lparr>app := s, in_flight := in_flight w + length (started r)\<rparr>))"
| "fire eng (SubmitSettled oc) w =
     (if 0 < in_flight w
      then Some (w\<lparr>app := handleSubmit_settle eng oc (app w), in_flight := in_flight w - 1\<rparr>)
      else None)"
| "fire eng ResetClicked w = Some (w\<lparr>app := handleReset (app w)\<rparr>)"
| "fire eng (HealthSettled ho) w =
     (case fetchModelInfo ho (app w) of
        (s, lines) \<Rightarrow> Some (w\<lparr>app := s, console := console w @ lines\<rparr>))"

fun run :: "engine \<Rightarrow> event list \<Rightarrow> world \<Rightarrow> world option" where
  "run eng [] w = Some w"
| "run eng (e # es) w = (case fire eng e w of None \<Rightarrow> None | Some w' \<Rightarrow> run eng es w')"

section \<open>What the page shows\<close>

text \<open>
  The states of a submission, read off the cells the page renders from: the spinner
  is shown while \<open>loading\<close>, the red alert while \<open>error\<close> is set, the green alert
  while \<open>success\<close> is set; a submission is ready when an image is stored and none of
  these is shown.
\<close>

definition is_submitting :: "app_state \<Rightarrow> bool" where
  "is_submitting s = loading s"

definition is_failed :: "app_state \<Rightarrow> bool" where
  "is_failed s = (error s \<noteq> None)"

definition is_succeeded :: "app_state \<Rightarrow> bool" where
  "is_succeeded s = (success s \<noteq> None)"

definition is_ready :: "app_state \<Rightarrow> bool" where
  "is_ready s = (image_st s \<noteq> None \<and> \<not> loading s \<and> error s = None \<and> success s = None)"

text \<open>
  The order of the numbers a response can carry, and a prediction list in
  non-increasing order of \<open>confidence\<close>: every entry is an object with a numeric
  \<open>confidence\<close>, and no entry has a smaller one than a later entry.
\<close>

fun num_ge :: "jsnum \<Rightarrow> jsnum \<Rightarrow> bool" where
  "num_ge (Finite x) (Finite y) = (y \<le> x)"
| "num_ge PosInfinity y = True"
| "num_ge (Finite x) PosInfinity = False"
| "num_ge (Finite x) NegInfinity = True"
| "num_ge NegInfinity (Finite y) = False"
| "num_ge NegInfinity PosInfinity = False"
| "num_ge NegInfinity NegInfinity = True"

fun confidence_of :: "jsval \<Rightarrow> jsnum option" where
  "confidence_of (JObj kvs) = (case map_of kvs ''confidence'' of Some (JNum n) \<Rightarrow> Some n | _ \<Rightarrow> None)"
| "confidence_of v = None"

definition confidence_ge :: "jsval \<Rightarrow> jsval \<Rightarrow> bool" where
  "confidence_ge a b =
     (case (confidence_of a, confidence_of b) of
        (Some x, Some y) \<Rightarrow> num_ge x y
      | _ \<Rightarrow> False)"

fun descending :: "jsval \<Rightarrow> bool" where
  "descending (JArr xs) = (list_all (\<lambda>x. confidence_of x \<noteq> None) xs \<and> sorted_wrt confidence_ge xs)"
| "descending v = False"

text \<open>
  The double nearest to a decimal literal \<open>q\<close>, which is what \<open>JSON.parse\<close>
  gives for it: \<open>m / 2^k\<close> with a significand \<open>m\<close> of 53 bits that is not a power
  of two, so that its neighbours are \<open>1 / 2^k\<close> away on both sides, and less than
  half of that away from \<open>q\<close>.
\<close>

definition nearest_double :: "rat \<Rightarrow> nat \<Rightarrow> nat \<Rightarrow> bool" where
  "nearest_double q m k =
     (2 ^ 52 < m \<and> m < 2 ^ 53 \<and> k \<le> 1074 \<and> \<bar>q - of_nat m / 2 ^ k\<bar> < 1 / 2 ^ Suc k)"

section \<open>The files and responses of the specification's scenarios\<close>

definition fish_png :: js_file where
  "fish_png = \<lparr> file_type = ''image/png'', file_size = 2 * 1024 * 1024 \<rparr>"

definition big_jpeg :: js_file where
  "big_jpeg = \<lparr> file_type = ''image/jpeg'', file_size = 20 * 1024 * 1024 \<rparr>"

definition text_file :: js_file where
  "text_file = \<lparr> file_type = ''text/plain'', file_size = 20 * 1024 * 1024 \<rparr>"

text \<open>The doubles that the literals \<open>97.345\<close> and \<open>2.655\<close> parse to.\<close>

definition double_97_345 :: rat where
  "double_97_345 = 6850045401974702 / 2 ^ 46"

definition double_2_655 :: rat where
  "double_2_655 = 5978528505334333 / 2 ^ 51"

definition salmon :: jsval where
  "salmon =
     JObj [(''class_id'', JNum (Finite 1)), (''species'', JStr ''Salmon''),
           (''confidence'', JNum (Finite double_97_345))]"

definition trout :: jsval where
  "trout =
     JObj [(''class_id'', JNum (Finite 2)), (''species'', JStr ''Trout''),
           (''confidence'', JNum (Finite double_2_655))]"

definition top_salmon :: jsval where
  "top_salmon = JObj [(''species'', JStr ''Salmon''), (''confidence'', JNum (Finite double_97_345))]"

text \<open>The success response as the scenario writes it, which has no \<open>top_prediction\<close>.\<close>

definition scenario_response :: jsval where
  "scenario_response = JObj [(''success'', JBool True), (''predictions'', JArr [salmon, trout])]"

text \<open>The same response in the shape of the service's contract.\<close>

definition contract_response :: jsval where
  "contract_response =
     JObj [(''success'', JBool True), (''predictions'', JArr [salmon, trout]),
           (''top_prediction'', top_salmon)]"

definition unsorted_response :: jsval where
  "unsorted_response =
     JObj [(''success'', JBool True), (''predictions'', JArr [trout, salmon]),
           (''top_prediction'', top_salmon)]"

definition empty_response :: jsval where
  "empty_response = JObj [(''success'', JBool True), (''predictions'', JArr [])]"

definition empty_response_with_top :: jsval where
  "empty_response_with_top =
     JObj [(''success'', JBool True), (''predictions'', JArr []), (''top_prediction'', top_salmon)]"

definition blurry_response :: jsval where
  "blurry_response = JObj [(''success'', JBool False), (''error'', JStr ''too blurry'')]"

text \<open>The state after \<open>fish.png\<close> was chosen and read: an image and its preview.\<close>

definition ready_state :: app_state where
  "ready_state = reader_onload fish_png ''iVBORw0KGgo='' initial_state"

text \<open>
  A state that shows a preview, a prediction list and a summary, as a successful
  submission of \<open>fish.png\<close> leaves it.
\<close>

definition shown_state :: app_state where
  "shown_state =
     ready_state\<lparr>predictions := JArr [salmon, trout],
                 success := Some ''Identified as Salmon with 97.34% confidence''\<rparr>"

text \<open>A preview is kept exactly as long as an image is stored.\<close>

definition preview_with_image :: "app_state \<Rightarrow> bool" where
  "preview_with_image s = ((preview s = None) = (image_st s = None))"

section \<open>Evaluating the handlers\<close>

lemmas submit_defs = handleSubmit_def handleSubmit_start_def handleSubmit_settle_def try_block_def
  summary_def prediction_error_def caught_message_def throw_type_error_def

lemmas scenario_defs = ready_state_def reader_onload_def initial_state_def data_url_def
  scenario_response_def contract_response_def unsorted_response_def empty_response_def
  empty_response_with_top_def blurry_response_def top_salmon_def

lemmas handler_defs = handleFileInput_def handleImageUpload_def handleDrop_def handleDragOver_def
  handleDragLeave_def reader_onload_def handleSubmit_start_def handleSubmit_settle_def try_block_def
  summary_def prediction_error_def caught_message_def throw_type_error_def handleReset_def
  fetchModelInfo_def started_def validTypes_def

lemma decimal_small: "n < 10 \<Longrightarrow> decimal n = [digit_char n]"
  by (simp add: decimal.simps)

lemma decimal_large: "10 \<le> n \<Longrightarrow> decimal n = decimal (n div 10) @ [digit_char (n mod 10)]"
  by (subst decimal.simps) simp

lemma decimal_not_empty: "decimal n \<noteq> []"
  by (subst decimal.simps) simp

text \<open>
  What \<open>toFixed(2)\<close> prints below \<open>10^21\<close>: the digits of the whole part, a point,
  and exactly two digits, of the nearest hundredth \<open>n / 100\<close>.
\<close>

lemma fixed2_digits_eq:
  "fixed2_digits x =
     decimal (nat \<lfloor>x * 100 + 1 / 2\<rfloor> div 100) @ ''.'' @
     [digit_char (nat \<lfloor>x * 100 + 1 / 2\<rfloor> div 10 mod 10), digit_char (nat \<lfloor>x * 100 + 1 / 2\<rfloor> mod 10)]"
proof -
  define n where "n = nat \<lfloor>x * 100 + 1 / 2\<rfloor>"
  consider "n < 10" | "10 \<le> n" "n < 100" | "100 \<le> n" by linarith
  then have "(let m = decimal n;
          m' = (if length m \<le> 2 then replicate (3 - length m) (CHR ''0'') @ m else m);
          k = length m'
      in take (k - 2) m' @ ''.'' @ drop (k - 2) m')
    = decimal (n div 100) @ ''.'' @ [digit_char (n div 10 mod 10), digit_char (n mod 10)]"
  proof cases
    case 1
    then show ?thesis by (simp add: decimal_small Let_def digit_char_def)
  next
    case 2
    then have "n div 10 < 10" by simp
    with 2 show ?thesis
      by (simp add: decimal_large decimal_small Let_def digit_char_def numeral_3_eq_3)
  next
    case 3
    then have a: "10 \<le> n" and b: "10 \<le> n div 10" by simp_all
    have c: "n div 10 div 10 = n div 100" by (simp add: div_mult2_eq)
    from decimal_not_empty [of "n div 100"] show ?thesis
      by (simp add: decimal_large [OF a] decimal_large [OF b] c Let_def)
  qed
  then show ?thesis
    unfolding fixed2_digits_def n_def by (simp add: Let_def)
qed

lemma rounded_hundredth_is_nearest:
  assumes "0 \<le> (c :: rat)"
  shows "\<bar>of_nat (nat \<lfloor>c * 100 + 1 / 2\<rfloor>) / 100 - c\<bar> \<le> 1 / 200"
proof -
  define k where "k = \<lfloor>c * 100 + 1 / 2\<rfloor>"
  have "0 \<le> k" using assms by (simp add: k_def)
  then have "(of_nat (nat k) :: rat) = of_int k" by simp
  moreover have "of_int k \<le> c * 100 + 1 / 2" and "c * 100 + 1 / 2 < of_int k + 1"
    unfolding k_def by linarith+
  ultimately have "\<bar>of_nat (nat k) / 100 - c\<bar> \<le> 1 / 200" by linarith
  then show ?thesis by (simp only: k_def)
qed

text \<open>
  The literals of the scenario are not doubles: \<open>97.345\<close> parses to a double just
  below it, and so does \<open>2.655\<close>.
\<close>

lemma scenario_doubles:
  "nearest_double (97345 / 1000) 6850045401974702 46"
  "double_97_345 = of_nat 6850045401974702 / 2 ^ 46"
  "double_97_345 < 97345 / 1000"
  "nearest_double (2655 / 1000) 5978528505334333 51"
  "double_2_655 = of_nat 5978528505334333 / 2 ^ 51"
  by (simp_all add: nearest_double_def double_97_345_def double_2_655_def)

lemma floor_97_345: "\<lfloor>double_97_345 * 100 + 1 / 2\<rfloor> = 9734"
  by (simp add: double_97_345_def floor_eq_iff)

lemma fixed2_97_345: "fixed2_digits double_97_345 = ''97.34''"
  unfolding fixed2_digits_eq floor_97_345
  by (simp add: decimal_small decimal_large digit_char_def)

lemma double_97_345_range:
  "\<not> double_97_345 < 0" "\<not> 1000000000000000000000 \<le> double_97_345"
  "\<bar>double_97_345\<bar> = double_97_345" "0 \<le> double_97_345" "double_97_345 < 10 ^ 21"
  by (simp_all add: double_97_345_def)

lemma ready_state_image: "image_st ready_state = Some fish_png"
  by (simp add: ready_state_def reader_onload_def)

lemma submit_contract_response:
  "handleSubmit eng (Responded True contract_response) ready_state = shown_state"
  by (simp add: submit_defs scenario_defs shown_state_def fixed2_97_345 double_97_345_range)

lemma submit_unsorted_response:
  "handleSubmit eng (Responded True unsorted_response) ready_state
     = shown_state\<lparr>predictions := JArr [trout, salmon]\<rparr>"
  by (simp add: submit_defs scenario_defs shown_state_def fixed2_97_345 double_97_345_range)

lemma descending_salmon_trout: "descending (JArr [salmon, trout])"
  by (simp add: trout_def salmon_def confidence_ge_def double_97_345_def double_2_655_def)

lemma not_descending_trout_salmon: "\<not> descending (JArr [trout, salmon])"
  by (simp add: trout_def salmon_def confidence_ge_def double_97_345_def double_2_655_def)

lemma run_to_ready:
  "run eng [FileInput (Some fish_png), ReaderLoaded 0 ''iVBORw0KGgo=''] initial_world
     = Some \<lparr> app = ready_state, reading = [], in_flight = 0, console = [] \<rparr>"
  by (simp add: handler_defs initial_world_def initial_state_def ready_state_def fish_png_def)

section \<open>What each handler leaves alone\<close>

lemma handleImageUpload_keeps:
  "image_st (fst (handleImageUpload fo s)) = image_st s"
  "preview (fst (handleImageUpload fo s)) = preview s"
  by (simp_all add: handleImageUpload_def split: option.splits)

lemma try_block_keeps:
  "image_st (fst (try_block eng oc s)) = image_st s"
  "preview (fst (try_block eng oc s)) = preview s"
  by (auto simp: try_block_def Let_def split: outcome.splits sum.splits)

lemma handleSubmit_settle_keeps:
  "image_st (handleSubmit_settle eng oc s) = image_st s"
  "preview (handleSubmit_settle eng oc s) = preview s"
  using try_block_keeps [of eng oc s]
  by (cases "try_block eng oc s"; auto simp: handleSubmit_settle_def split: option.splits)+

lemma handleSubmit_start_keeps:
  "image_st (fst (handleSubmit_start s)) = image_st s"
  "preview (fst (handleSubmit_start s)) = preview s"
  by (simp_all add: handleSubmit_start_def split: option.splits)

lemma handleSubmit_keeps:
  "image_st (handleSubmit eng oc s) = image_st s"
  "preview (handleSubmit eng oc s) = preview s"
  using handleSubmit_start_keeps [of s] handleSubmit_settle_keeps [of eng oc "fst (handleSubmit_start s)"]
  by (cases "handleSubmit_start s"; auto simp: handleSubmit_def split: option.splits)+

lemma fetchModelInfo_keeps:
  "image_st (fst (fetchModelInfo ho s)) = image_st s"
  "preview (fst (fetchModelInfo ho s)) = preview s"
  by (simp_all add: fetchModelInfo_def split: health_outcome.splits)

lemma fire_keeps_invariant:
  assumes "fire eng e w = Some w'" and "preview_with_image (app w)"
  shows "preview_with_image (app w')"
proof (cases e)
  case (FileInput fo)
  with assms handleImageUpload_keeps [of fo "app w"] show ?thesis
    by (cases fo) (auto simp: preview_with_image_def handleFileInput_def split: prod.splits)
next
  case (Drop fo)
  with assms handleImageUpload_keeps [of fo "(app w)\<lparr>isDragging := False\<rparr>"] show ?thesis
    by (cases fo) (auto simp: preview_with_image_def handleDrop_def split: prod.splits)
next
  case DragOver
  with assms show ?thesis by (auto simp: preview_with_image_def handleDragOver_def)
next
  case DragLeave
  with assms show ?thesis by (auto simp: preview_with_image_def handleDragLeave_def)
next
  case (ReaderLoaded i b64)
  with assms show ?thesis
    by (auto simp: preview_with_image_def reader_onload_def split: if_splits)
next
  case SubmitClicked
  with assms handleSubmit_start_keeps [of "app w"] show ?thesis
    by (auto simp: preview_with_image_def split: prod.splits)
next
  case (SubmitSettled oc)
  with assms handleSubmit_settle_keeps [of eng oc "app w"] show ?thesis
    by (auto simp: preview_with_image_def split: if_splits)
next
  case ResetClicked
  with assms show ?thesis by (auto simp: preview_with_image_def handleReset_def)
next
  case (HealthSettled ho)
  with assms fetchModelInfo_keeps [of ho "app w"] show ?thesis
    by (auto simp: preview_with_image_def split: prod.splits)
qed

lemma run_keeps_invariant:
  "run eng evs w = Some w' \<Longrightarrow> preview_with_image (app w) \<Longrightarrow> preview_with_image (app w')"
proof (induction evs arbitrary: w)
  case Nil
  then show ?case by simp
next
  case (Cons e es)
  then show ?case
    by (auto split: option.splits dest: fire_keeps_invariant)
qed

section \<open>The image validator\<close>

text \<open>
  C2. The rules of the validator are applied in order, the first failing rule
  deciding: a file whose declared type is not one of \<open>image/jpeg\<close>, \<open>image/png\<close>,
  \<open>image/jpg\<close>, \<open>image/bmp\<close>, \<open>image/gif\<close>, \<open>image/webp\<close> is rejected with the
  invalid-type message whatever its size; otherwise a file of more than
  \<open>16 * 1024 * 1024\<close> bytes is rejected with the too-large message; otherwise the file
  is accepted: no error is set and the file goes to the reader.
\<close>

theorem validator_rules:
  "(file_type f \<notin> set [''image/jpeg'', ''image/png'', ''image/jpg'', ''image/bmp'', ''image/gif'', ''image/webp''] \<longrightarrow>
      handleImageUpload (Some f) s =
        (s\<lparr>error := Some ''Please upload a valid image file (JPEG, PNG, WebP, GIF)''\<rparr>, None))
   \<and> (file_type f \<in> set [''image/jpeg'', ''image/png'', ''image/jpg'', ''image/bmp'', ''image/gif'', ''image/webp'']
        \<and> 16 * 1024 * 1024 < file_size f \<longrightarrow>
      handleImageUpload (Some f) s =
        (s\<lparr>error := Some ''File size too large. Maximum size is 16MB''\<rparr>, None))
   \<and> (file_type f \<in> set [''image/jpeg'', ''image/png'', ''image/jpg'', ''image/bmp'', ''image/gif'', ''image/webp'']
        \<and> file_size f \<le> 16 * 1024 * 1024 \<longrightarrow>
      snd (handleImageUpload (Some f) s) = Some f \<and> error (fst (handleImageUpload (Some f) s)) = None)"
  unfolding handleImageUpload_def validTypes_def by (simp add: not_less)

text \<open>
  The three rules at work: a 20 MiB text file fails on its type, a 20 MiB JPEG on its
  size, the 2 MiB PNG passes.
\<close>

theorem validator_rules_witness:
  "handleImageUpload (Some text_file) initial_state =
     (initial_state\<lparr>error := Some ''Please upload a valid image file (JPEG, PNG, WebP, GIF)''\<rparr>, None)
   \<and> handleImageUpload (Some big_jpeg) initial_state =
     (initial_state\<lparr>error := Some ''File size too large. Maximum size is 16MB''\<rparr>, None)
   \<and> snd (handleImageUpload (Some fish_png) initial_state) = Some fish_png
   \<and> error (fst (handleImageUpload (Some fish_png) initial_state)) = None"
proof -
  have a: "file_type text_file \<notin> set [''image/jpeg'', ''image/png'', ''image/jpg'', ''image/bmp'', ''image/gif'', ''image/webp'']"
    by (simp add: text_file_def)
  have b: "file_type big_jpeg \<in> set [''image/jpeg'', ''image/png'', ''image/jpg'', ''image/bmp'', ''image/gif'', ''image/webp'']
        \<and> 16 * 1024 * 1024 < file_size big_jpeg"
    by (simp add: big_jpeg_def)
  have c: "file_type fish_png \<in> set [''image/jpeg'', ''image/png'', ''image/jpg'', ''image/bmp'', ''image/gif'', ''image/webp'']
        \<and> file_size fish_png \<le> 16 * 1024 * 1024"
    by (simp add: fish_png_def)
  from a b c validator_rules [of text_file initial_state] validator_rules [of big_jpeg initial_state]
    validator_rules [of fish_png initial_state]
  show ?thesis by blast
qed

text \<open>
  C10. When a newly selected file fails validation, by its type or by its size, the
  handler changes the error message and nothing else: the stored image, its preview,
  the predictions and the summary are what they were, nothing is handed to the
  reader, and a submit from the new state sends the image that was stored before.
\<close>

theorem rejected_file_changes_only_error:
  assumes "file_type f \<notin> set validTypes \<or> 16 * 1024 * 1024 < file_size f"
  shows "snd (handleImageUpload (Some f) s) = None
    \<and> fst (handleImageUpload (Some f) s) = s\<lparr>error := error (fst (handleImageUpload (Some f) s))\<rparr>
    \<and> image_st (fst (handleImageUpload (Some f) s)) = image_st s
    \<and> preview (fst (handleImageUpload (Some f) s)) = preview s
    \<and> predictions (fst (handleImageUpload (Some f) s)) = predictions s
    \<and> success (fst (handleImageUpload (Some f) s)) = success s
    \<and> snd (handleSubmit_start (fst (handleImageUpload (Some f) s))) = image_st s"
  using assms by (auto simp: handleImageUpload_def handleSubmit_start_def split: option.splits)

theorem rejected_file_changes_only_error_witness:
  "file_type text_file \<notin> set validTypes
   \<and> fst (handleImageUpload (Some text_file) shown_state)
       = shown_state\<lparr>error := Some ''Please upload a valid image file (JPEG, PNG, WebP, GIF)''\<rparr>
   \<and> predictions (fst (handleImageUpload (Some text_file) shown_state)) = JArr [salmon, trout]
   \<and> success (fst (handleImageUpload (Some text_file) shown_state))
       = Some ''Identified as Salmon with 97.34% confidence''
   \<and> snd (handleSubmit_start (fst (handleImageUpload (Some text_file) shown_state))) = Some fish_png"
proof -
  have a: "file_type text_file \<notin> set validTypes"
    by (simp add: text_file_def validTypes_def)
  then have b: "file_type text_file \<notin> set validTypes \<or> 16 * 1024 * 1024 < file_size text_file"
    by simp
  have c: "error (fst (handleImageUpload (Some text_file) shown_state))
      = Some ''Please upload a valid image file (JPEG, PNG, WebP, GIF)''"
    using a by (simp add: handleImageUpload_def)
  have d: "image_st shown_state = Some fish_png"
    by (simp add: shown_state_def ready_state_def reader_onload_def)
  have e: "predictions shown_state = JArr [salmon, trout]"
    and f: "success shown_state = Some ''Identified as Salmon with 97.34% confidence''"
    by (simp_all add: shown_state_def)
  note r = rejected_file_changes_only_error [OF b, of shown_state]
  from r have "fst (handleImageUpload (Some text_file) shown_state)
      = shown_state\<lparr>error := error (fst (handleImageUpload (Some text_file) shown_state))\<rparr>"
    by blast
  with c have g: "fst (handleImageUpload (Some text_file) shown_state)
      = shown_state\<lparr>error := Some ''Please upload a valid image file (JPEG, PNG, WebP, GIF)''\<rparr>"
    by (simp only:)
  from r e have h: "predictions (fst (handleImageUpload (Some text_file) shown_state)) = JArr [salmon, trout]"
    by (simp only:)
  from r f have i: "success (fst (handleImageUpload (Some text_file) shown_state))
      = Some ''Identified as Salmon with 97.34% confidence''"
    by (simp only:)
  from r d have j: "snd (handleSubmit_start (fst (handleImageUpload (Some text_file) shown_state))) = Some fish_png"
    by (simp only:)
  from a g h i j show ?thesis by blast
qed

section \<open>The service-info query\<close>

text \<open>
  C9. Whatever the service-info query delivers, \<open>fetchModelInfo\<close> changes no cell
  but \<open>modelInfo\<close>: the image, the preview, the predictions, the loading flag, the
  error message and the summary stay as they are. When the query fails the state is
  not changed at all, and one line goes to the console.
\<close>

theorem fetchModelInfo_frame:
  "fst (fetchModelInfo ho s) = s\<lparr>modelInfo := modelInfo (fst (fetchModelInfo ho s))\<rparr>
   \<and> image_st (fst (fetchModelInfo ho s)) = image_st s
   \<and> preview (fst (fetchModelInfo ho s)) = preview s
   \<and> predictions (fst (fetchModelInfo ho s)) = predictions s
   \<and> loading (fst (fetchModelInfo ho s)) = loading s
   \<and> error (fst (fetchModelInfo ho s)) = error s
   \<and> success (fst (fetchModelInfo ho s)) = success s
   \<and> fetchModelInfo (HealthRejected m) s = (s, [(''Failed to fetch model info:'', m)])"
  by (cases ho) (simp_all add: fetchModelInfo_def)

section \<open>File selection\<close>

text \<open>
  C5, as the code has it. A selected file that passes validation clears the error
  message and the prediction list at once, before its preview is read. A file that
  fails validation only replaces the error message: the prediction list stays as
  it was.
\<close>

theorem file_selection_clears_when_accepted:
  "(file_type f \<in> set validTypes \<and> file_size f \<le> 16 * 1024 * 1024 \<longrightarrow>
      error (fst (handleImageUpload (Some f) s)) = None
      \<and> predictions (fst (handleImageUpload (Some f) s)) = JArr [])
   \<and> (file_type f \<notin> set validTypes \<or> 16 * 1024 * 1024 < file_size f \<longrightarrow>
      error (fst (handleImageUpload (Some f) s)) \<noteq> None
      \<and> predictions (fst (handleImageUpload (Some f) s)) = predictions s)"
  by (auto simp: handleImageUpload_def)

theorem file_selection_clears_when_accepted_witness:
  "file_type fish_png \<in> set validTypes \<and> file_size fish_png \<le> 16 * 1024 * 1024
   \<and> error (fst (handleImageUpload (Some fish_png) (shown_state\<lparr>error := Some ''Prediction failed''\<rparr>))) = None
   \<and> predictions (fst (handleImageUpload (Some fish_png) (shown_state\<lparr>error := Some ''Prediction failed''\<rparr>)))
       = JArr []
   \<and> file_type text_file \<notin> set validTypes
   \<and> error (fst (handleImageUpload (Some text_file) shown_state)) \<noteq> None
   \<and> predictions (fst (handleImageUpload (Some text_file) shown_state)) = JArr [salmon, trout]"
proof -
  have a: "file_type fish_png \<in> set validTypes \<and> file_size fish_png \<le> 16 * 1024 * 1024"
    by (simp add: fish_png_def validTypes_def)
  have b: "file_type text_file \<notin> set validTypes"
    by (simp add: text_file_def validTypes_def)
  then have c: "file_type text_file \<notin> set validTypes \<or> 16 * 1024 * 1024 < file_size text_file"
    by simp
  have d: "predictions shown_state = JArr [salmon, trout]"
    by (simp add: shown_state_def)
  from a file_selection_clears_when_accepted [of fish_png "shown_state\<lparr>error := Some ''Prediction failed''\<rparr>"]
  have e: "error (fst (handleImageUpload (Some fish_png) (shown_state\<lparr>error := Some ''Prediction failed''\<rparr>))) = None
      \<and> predictions (fst (handleImageUpload (Some fish_png) (shown_state\<lparr>error := Some ''Prediction failed''\<rparr>)))
          = JArr []"
    by blast
  from c file_selection_clears_when_accepted [of text_file shown_state]
  have "error (fst (handleImageUpload (Some text_file) shown_state)) \<noteq> None
      \<and> predictions (fst (handleImageUpload (Some text_file) shown_state)) = predictions shown_state"
    by blast
  with d have f: "error (fst (handleImageUpload (Some text_file) shown_state)) \<noteq> None
      \<and> predictions (fst (handleImageUpload (Some text_file) shown_state)) = JArr [salmon, trout]"
    by simp
  from a b e f show ?thesis by blast
qed

text \<open>
  Against C5 as stated: a text file selected while predictions are stored leaves
  them stored, beside the new error message. The state is one the page reaches:
  \<open>fish.png\<close> is chosen, read and submitted, the image is reset while the request is
  under way, the response arrives, and then the text file is chosen.
\<close>

theorem rejected_file_keeps_stale_predictions:
  "\<forall>eng. map_option (\<lambda>w. (error (app w), predictions (app w)))
         (run eng [FileInput (Some fish_png), ReaderLoaded 0 ''iVBORw0KGgo='', SubmitClicked, ResetClicked,
                   SubmitSettled (Responded True contract_response), FileInput (Some text_file)]
            initial_world)
      = Some (Some ''Please upload a valid image file (JPEG, PNG, WebP, GIF)'', JArr [salmon, trout])
     \<and> predictions (fst (handleImageUpload (Some text_file) shown_state)) = JArr [salmon, trout]
     \<and> predictions (fst (handleImageUpload (Some text_file) shown_state)) \<noteq> JArr []"
  by (simp add: handler_defs initial_world_def initial_state_def fish_png_def text_file_def
      contract_response_def top_salmon_def fixed2_97_345 double_97_345_range shown_state_def)

section \<open>The preview\<close>

text \<open>
  C6, as the code has it. In every state the handlers can reach, a preview is
  present exactly when an image is stored, so a ready submission has one. Submitting
  and the outcome of a submission, success or failure, change neither. After a reset
  there is no preview and no image.
\<close>

theorem preview_iff_image_stored:
  assumes "run eng evs initial_world = Some w"
  shows "(preview (app w) \<noteq> None) = (image_st (app w) \<noteq> None)
    \<and> (is_ready (app w) \<longrightarrow> preview (app w) \<noteq> None)
    \<and> preview (handleSubmit eng oc (app w)) = preview (app w)
    \<and> preview (handleReset (app w)) = None
    \<and> image_st (handleReset (app w)) = None"
proof -
  have "preview_with_image (app initial_world)"
    by (simp add: preview_with_image_def initial_world_def initial_state_def)
  with assms have "preview_with_image (app w)" by (rule run_keeps_invariant)
  then show ?thesis
    by (auto simp: preview_with_image_def is_ready_def handleReset_def handleSubmit_keeps)
qed

theorem preview_iff_image_stored_witness:
  "\<forall>eng. run eng [FileInput (Some fish_png), ReaderLoaded 0 ''iVBORw0KGgo=''] initial_world
        = Some \<lparr> app = ready_state, reading = [], in_flight = 0, console = [] \<rparr>
     \<and> is_ready ready_state
     \<and> preview ready_state = Some ''data:image/png;base64,iVBORw0KGgo=''
     \<and> image_st ready_state = Some fish_png
     \<and> preview (handleSubmit eng (Responded True contract_response) ready_state)
         = Some ''data:image/png;base64,iVBORw0KGgo=''
     \<and> preview (handleReset ready_state) = None
     \<and> image_st (handleReset ready_state) = None"
proof
  fix eng
  note r = run_to_ready [of eng]
  have a: "is_ready ready_state"
    by (simp add: is_ready_def scenario_defs)
  have b: "preview ready_state = Some ''data:image/png;base64,iVBORw0KGgo=''"
    by (simp add: scenario_defs fish_png_def)
  from preview_iff_image_stored [OF r, of "Responded True contract_response"]
  have "preview (handleSubmit eng (Responded True contract_response) ready_state) = preview ready_state
      \<and> preview (handleReset ready_state) = None \<and> image_st (handleReset ready_state) = None"
    by simp
  with r a b ready_state_image
  show "run eng [FileInput (Some fish_png), ReaderLoaded 0 ''iVBORw0KGgo=''] initial_world
        = Some \<lparr> app = ready_state, reading = [], in_flight = 0, console = [] \<rparr>
     \<and> is_ready ready_state
     \<and> preview ready_state = Some ''data:image/png;base64,iVBORw0KGgo=''
     \<and> image_st ready_state = Some fish_png
     \<and> preview (handleSubmit eng (Responded True contract_response) ready_state)
         = Some ''data:image/png;base64,iVBORw0KGgo=''
     \<and> preview (handleReset ready_state) = None
     \<and> image_st (handleReset ready_state) = None"
    by (simp only:)
qed

text \<open>
  Against C6 as stated: choosing a text file on the fresh page shows an error,
  the failed state, with no preview.
\<close>

theorem failed_without_preview:
  "\<forall>eng. map_option (\<lambda>w. (is_failed (app w), error (app w), preview (app w)))
         (run eng [FileInput (Some text_file)] initial_world)
      = Some (True, Some ''Please upload a valid image file (JPEG, PNG, WebP, GIF)'', None)"
  by (simp add: handler_defs initial_world_def initial_state_def text_file_def is_failed_def)

text \<open>
  A reset while a request is under way leaves the spinner, and then the summary,
  with no preview either.
\<close>

lemma reset_during_request:
  "map_option (\<lambda>w. (is_submitting (app w), preview (app w)))
     (run eng [FileInput (Some fish_png), ReaderLoaded 0 ''iVBORw0KGgo='', SubmitClicked, ResetClicked]
        initial_world) = Some (True, None)"
  "map_option (\<lambda>w. (is_succeeded (app w), preview (app w)))
     (run eng [FileInput (Some fish_png), ReaderLoaded 0 ''iVBORw0KGgo='', SubmitClicked, ResetClicked,
               SubmitSettled (Responded True contract_response)]
        initial_world) = Some (True, None)"
  by (simp_all add: handler_defs initial_world_def initial_state_def fish_png_def is_submitting_def
      is_succeeded_def contract_response_def top_salmon_def fixed2_97_345 double_97_345_range)

section \<open>The outcome of a submission\<close>

text \<open>
  C7. When the service reports a failure with a message, a body whose \<open>error\<close> is
  a non-empty string and whose \<open>success\<close> is not truthy, or any such body with a
  status that is not ok, the submission fails with exactly that message: no summary,
  the spinner off, the predictions untouched. For \<open>{success: false, error: "too
  blurry"}\<close> the message is \<open>too blurry\<close>.
\<close>

theorem application_failure_message_verbatim:
  assumes "image_st s \<noteq> None"
    and "get_prop eng data ''error'' = Inr (JStr msg)" and "msg \<noteq> []"
    and "get_prop eng data ''success'' = Inr flag" and "\<not> (ok \<and> truthy flag)"
  shows "error (handleSubmit eng (Responded ok data) s) = Some msg
    \<and> is_failed (handleSubmit eng (Responded ok data) s)
    \<and> success (handleSubmit eng (Responded ok data) s) = None
    \<and> loading (handleSubmit eng (Responded ok data) s) = False
    \<and> predictions (handleSubmit eng (Responded ok data) s) = predictions s"
proof -
  from assms(1) obtain f where f: "image_st s = Some f" by auto
  have "prediction_error eng data = Thrown (Some msg)"
    using assms(2,3) by (simp add: prediction_error_def)
  moreover have "try_block eng (Responded ok data) s' = (s', Some (prediction_error eng data))" for s'
    using assms(4,5) by (cases ok) (simp_all add: try_block_def)
  ultimately show ?thesis
    using f assms(3)
    by (simp add: handleSubmit_def handleSubmit_start_def handleSubmit_settle_def caught_message_def
        is_failed_def)
qed

theorem application_failure_message_verbatim_witness:
  "\<forall>eng. image_st ready_state \<noteq> None
     \<and> error (handleSubmit eng (Responded True blurry_response) ready_state) = Some ''too blurry''
     \<and> error (handleSubmit eng (Responded False blurry_response) ready_state) = Some ''too blurry''
     \<and> is_failed (handleSubmit eng (Responded True blurry_response) ready_state)
     \<and> success (handleSubmit eng (Responded True blurry_response) ready_state) = None"
proof
  fix eng
  have a: "image_st ready_state \<noteq> None"
    by (simp add: ready_state_image)
  have b: "get_prop eng blurry_response ''error'' = Inr (JStr ''too blurry'')"
    and c: "''too blurry'' \<noteq> []"
    and d: "get_prop eng blurry_response ''success'' = Inr (JBool False)"
    and e: "\<not> (True \<and> truthy (JBool False))" "\<not> (False \<and> truthy (JBool False))"
    by (simp_all add: blurry_response_def)
  from a application_failure_message_verbatim [OF a b c d e(1)]
    application_failure_message_verbatim [OF a b c d e(2)]
  show "image_st ready_state \<noteq> None
     \<and> error (handleSubmit eng (Responded True blurry_response) ready_state) = Some ''too blurry''
     \<and> error (handleSubmit eng (Responded False blurry_response) ready_state) = Some ''too blurry''
     \<and> is_failed (handleSubmit eng (Responded True blurry_response) ready_state)
     \<and> success (handleSubmit eng (Responded True blurry_response) ready_state) = None"
    by blast
qed

text \<open>
  C3, as the code has it. The response \<open>{success: true, predictions: []}\<close>, which
  has no \<open>top_prediction\<close>, ends in the failed state and stores no summary. It fails
  because reading the species of the absent top prediction throws, and the message is
  that of the run-time error; with a status that is not ok it fails with
  \<open>Prediction failed\<close>. The emptiness of the list is not what fails it.
\<close>

theorem empty_list_fails_for_want_of_top_prediction:
  assumes "image_st s \<noteq> None"
  shows "error (handleSubmit eng (Responded True empty_response) s)
      = Some (caught_message (throw_type_error eng (ReadOfNullish JUndefined ''species'')))
    \<and> error (handleSubmit eng (Responded False empty_response) s) = Some ''Prediction failed''
    \<and> is_failed (handleSubmit eng (Responded ok empty_response) s)
    \<and> \<not> is_succeeded (handleSubmit eng (Responded ok empty_response) s)
    \<and> success (handleSubmit eng (Responded ok empty_response) s) = None"
  using assms
  by (cases ok) (auto simp: submit_defs empty_response_def is_failed_def is_succeeded_def)

theorem empty_list_fails_for_want_of_top_prediction_witness:
  "\<forall>eng. image_st ready_state \<noteq> None
     \<and> is_failed (handleSubmit eng (Responded True empty_response) ready_state)
     \<and> \<not> is_succeeded (handleSubmit eng (Responded True empty_response) ready_state)
     \<and> success (handleSubmit eng (Responded True empty_response) ready_state) = None
     \<and> error (handleSubmit eng (Responded False empty_response) ready_state) = Some ''Prediction failed''"
proof
  fix eng
  have a: "image_st ready_state \<noteq> None"
    by (simp add: ready_state_image)
  from a empty_list_fails_for_want_of_top_prediction [OF a, of eng True]
  show "image_st ready_state \<noteq> None
     \<and> is_failed (handleSubmit eng (Responded True empty_response) ready_state)
     \<and> \<not> is_succeeded (handleSubmit eng (Responded True empty_response) ready_state)
     \<and> success (handleSubmit eng (Responded True empty_response) ready_state) = None
     \<and> error (handleSubmit eng (Responded False empty_response) ready_state) = Some ''Prediction failed''"
    by blast
qed

text \<open>
  Against C3 as stated: an empty prediction list in a response that carries a
  \<open>top_prediction\<close> is accepted as a success with no results: the summary is stored,
  no error is, and the stored list is empty.
\<close>

theorem empty_list_with_top_prediction_succeeds:
  "\<forall>eng. success (handleSubmit eng (Responded True empty_response_with_top) ready_state)
        = Some ''Identified as Salmon with 97.34% confidence''
     \<and> error (handleSubmit eng (Responded True empty_response_with_top) ready_state) = None
     \<and> predictions (handleSubmit eng (Responded True empty_response_with_top) ready_state) = JArr []
     \<and> is_succeeded (handleSubmit eng (Responded True empty_response_with_top) ready_state)
     \<and> \<not> is_failed (handleSubmit eng (Responded True empty_response_with_top) ready_state)"
  by (simp add: submit_defs scenario_defs fixed2_97_345 double_97_345_range is_failed_def is_succeeded_def)

text \<open>
  C4 does not hold of the code. The success response of the scenario, which has
  no \<open>top_prediction\<close>, ends in the failed state: \<open>setPredictions\<close> has run before
  the summary is built, so the predictions of that very response are stored beside
  the error message.
\<close>

theorem failed_submission_keeps_predictions:
  "predictions (handleSubmit eng (Responded True scenario_response) ready_state) = JArr [salmon, trout]
   \<and> predictions ready_state = JArr []
   \<and> error (handleSubmit eng (Responded True scenario_response) ready_state)
      = Some (caught_message (throw_type_error eng (ReadOfNullish JUndefined ''species'')))
   \<and> success (handleSubmit eng (Responded True scenario_response) ready_state) = None
   \<and> is_failed (handleSubmit eng (Responded True scenario_response) ready_state)"
  by (simp add: submit_defs scenario_defs is_failed_def)

text \<open>
  C1, as the code has it. For every response accepted as success, one after which
  a summary is stored, the prediction list exposed to the page is \<open>data.predictions\<close>
  itself, in the order the service sent it: the handler neither checks nor sorts it.
  The displayed list is in non-increasing order of confidence exactly when the
  service's list is.
\<close>

theorem predictions_exposed_as_received:
  assumes "image_st s \<noteq> None"
    and "success (handleSubmit eng (Responded ok data) s) \<noteq> None"
  shows "\<exists>ps. get_prop eng data ''predictions'' = Inr ps
    \<and> predictions (handleSubmit eng (Responded ok data) s) = ps
    \<and> descending (predictions (handleSubmit eng (Responded ok data) s)) = descending ps"
  using assms by (auto simp: submit_defs split: sum.splits if_splits)

theorem predictions_exposed_as_received_witness:
  "\<forall>eng. image_st ready_state \<noteq> None
     \<and> success (handleSubmit eng (Responded True contract_response) ready_state) \<noteq> None
     \<and> get_prop eng contract_response ''predictions'' = Inr (JArr [salmon, trout])
     \<and> predictions (handleSubmit eng (Responded True contract_response) ready_state) = JArr [salmon, trout]
     \<and> descending (predictions (handleSubmit eng (Responded True contract_response) ready_state))"
proof
  fix eng
  have a: "image_st ready_state \<noteq> None"
    by (simp add: ready_state_image)
  have b: "success (handleSubmit eng (Responded True contract_response) ready_state) \<noteq> None"
    by (simp add: submit_contract_response shown_state_def)
  have c: "get_prop eng contract_response ''predictions'' = Inr (JArr [salmon, trout])"
    by (simp add: contract_response_def)
  from predictions_exposed_as_received [OF a b] c
  have d: "predictions (handleSubmit eng (Responded True contract_response) ready_state) = JArr [salmon, trout]"
    by auto
  with descending_salmon_trout
  have e: "descending (predictions (handleSubmit eng (Responded True contract_response) ready_state))"
    by (simp only:)
  from a b c d e
  show "image_st ready_state \<noteq> None
     \<and> success (handleSubmit eng (Responded True contract_response) ready_state) \<noteq> None
     \<and> get_prop eng contract_response ''predictions'' = Inr (JArr [salmon, trout])
     \<and> predictions (handleSubmit eng (Responded True contract_response) ready_state) = JArr [salmon, trout]
     \<and> descending (predictions (handleSubmit eng (Responded True contract_response) ready_state))"
    by blast
qed

text \<open>
  Against C1 as stated: a response accepted as success whose list has the trout,
  confidence 2.655, before the salmon, confidence 97.345, is exposed in that order.
\<close>

theorem unsorted_predictions_exposed_unsorted:
  "\<forall>eng. success (handleSubmit eng (Responded True unsorted_response) ready_state) \<noteq> None
     \<and> predictions (handleSubmit eng (Responded True unsorted_response) ready_state) = JArr [trout, salmon]
     \<and> \<not> descending (predictions (handleSubmit eng (Responded True unsorted_response) ready_state))"
  using not_descending_trout_salmon
  by (simp add: submit_unsorted_response shown_state_def)

text \<open>
  C8, as the code has it. On a success response whose \<open>top_prediction\<close> has a
  string \<open>species\<close> and a numeric \<open>confidence\<close> from 0 to below \<open>10^21\<close>, the summary
  stored is \<open>Identified as <species> with <confidence>% confidence\<close>, the confidence
  printed as its whole part, a point and exactly two digits: the hundredth nearest to
  the double that the service's number parses to (the upper one on a tie). Species
  and confidence are read from \<open>top_prediction\<close>, not from the prediction list.
\<close>

theorem summary_of_success:
  assumes "image_st s \<noteq> None"
    and "get_prop eng data ''success'' = Inr flag" and "truthy flag"
    and "get_prop eng data ''top_prediction'' = Inr tp"
    and "get_prop eng tp ''species'' = Inr (JStr species)"
    and "get_prop eng tp ''confidence'' = Inr (JNum (Finite c))"
    and "0 \<le> c" and "c < 10 ^ 21"
  shows "success (handleSubmit eng (Responded True data) s)
      = Some (''Identified as '' @ species @ '' with '' @
              decimal (nat \<lfloor>c * 100 + 1 / 2\<rfloor> div 100) @ ''.'' @
              [digit_char (nat \<lfloor>c * 100 + 1 / 2\<rfloor> div 10 mod 10),
               digit_char (nat \<lfloor>c * 100 + 1 / 2\<rfloor> mod 10)] @
              ''% confidence'')
    \<and> error (handleSubmit eng (Responded True data) s) = None
    \<and> \<bar>of_nat (nat \<lfloor>c * 100 + 1 / 2\<rfloor>) / 100 - c\<bar> \<le> 1 / 200"
proof -
  from assms(1) obtain f where f: "image_st s = Some f" by auto
  from assms(2) obtain ps where ps: "get_prop eng data ''predictions'' = Inr ps"
    by (cases data) auto
  have c: "\<not> c < 0" "\<not> 1000000000000000000000 \<le> c" "\<bar>c\<bar> = c"
    using assms(7,8) by simp_all
  have "summary eng data
      = Inr (''Identified as '' @ species @ '' with '' @ fixed2_digits c @ ''% confidence'')"
    using assms(4,5,6) c by (simp add: summary_def)
  then have "handleSubmit eng (Responded True data) s
    = s\<lparr>loading := False, error := None, predictions := ps,
        success := Some (''Identified as '' @ species @ '' with '' @ fixed2_digits c @ ''% confidence'')\<rparr>"
    using assms(2,3) ps f
    by (simp add: handleSubmit_def handleSubmit_start_def handleSubmit_settle_def try_block_def)
  with rounded_hundredth_is_nearest [OF assms(7)] show ?thesis
    by (simp add: fixed2_digits_eq)
qed

theorem summary_of_success_witness:
  "\<forall>eng. image_st ready_state \<noteq> None
     \<and> get_prop eng contract_response ''top_prediction'' = Inr top_salmon
     \<and> get_prop eng top_salmon ''confidence'' = Inr (JNum (Finite double_97_345))
     \<and> 0 \<le> double_97_345 \<and> double_97_345 < 10 ^ 21
     \<and> success (handleSubmit eng (Responded True contract_response) ready_state)
         = Some ''Identified as Salmon with 97.34% confidence''
     \<and> error (handleSubmit eng (Responded True contract_response) ready_state) = None"
proof
  fix eng
  have a: "image_st ready_state \<noteq> None"
    by (simp add: ready_state_image)
  have b: "get_prop eng contract_response ''success'' = Inr (JBool True)" and c: "truthy (JBool True)"
    and d: "get_prop eng contract_response ''top_prediction'' = Inr top_salmon"
    and e: "get_prop eng top_salmon ''species'' = Inr (JStr ''Salmon'')"
    and f: "get_prop eng top_salmon ''confidence'' = Inr (JNum (Finite double_97_345))"
    by (simp_all add: contract_response_def top_salmon_def)
  note g = double_97_345_range(4) and h = double_97_345_range(5)
  have i: "''Identified as '' @ ''Salmon'' @ '' with '' @
              decimal (nat \<lfloor>double_97_345 * 100 + 1 / 2\<rfloor> div 100) @ ''.'' @
              [digit_char (nat \<lfloor>double_97_345 * 100 + 1 / 2\<rfloor> div 10 mod 10),
               digit_char (nat \<lfloor>double_97_345 * 100 + 1 / 2\<rfloor> mod 10)] @
              ''% confidence'' = ''Identified as Salmon with 97.34% confidence''"
    unfolding floor_97_345 by (simp add: decimal_small decimal_large digit_char_def)
  from summary_of_success [OF a b c d e f g h]
  have "success (handleSubmit eng (Responded True contract_response) ready_state)
         = Some ''Identified as Salmon with 97.34% confidence''
     \<and> error (handleSubmit eng (Responded True contract_response) ready_state) = None"
    unfolding i by blast
  with a d f g h
  show "image_st ready_state \<noteq> None
     \<and> get_prop eng contract_response ''top_prediction'' = Inr top_salmon
     \<and> get_prop eng top_salmon ''confidence'' = Inr (JNum (Finite double_97_345))
     \<and> 0 \<le> double_97_345 \<and> double_97_345 < 10 ^ 21
     \<and> success (handleSubmit eng (Responded True contract_response) ready_state)
         = Some ''Identified as Salmon with 97.34% confidence''
     \<and> error (handleSubmit eng (Responded True contract_response) ready_state) = None"
    by blast
qed

text \<open>
  Against C8 as stated: \<open>97.345\<close> parses to the double \<open>6850045401974702 / 2^46\<close>,
  which lies below \<open>97.345\<close>, so the summary of the scenario, given its
  \<open>top_prediction\<close>, reads \<open>97.34\<close> and not \<open>97.35\<close>; and for the response as the
  scenario writes it, without \<open>top_prediction\<close>, no summary is stored at all.
\<close>

theorem scenario_summary_is_not_97_35:
  "\<forall>eng. success (handleSubmit eng (Responded True contract_response) ready_state)
        \<noteq> Some ''Identified as Salmon with 97.35% confidence''
     \<and> success (handleSubmit eng (Responded True contract_response) ready_state)
        = Some ''Identified as Salmon with 97.34% confidence''
     \<and> nearest_double (97345 / 1000) 6850045401974702 46
     \<and> double_97_345 = of_nat 6850045401974702 / 2 ^ 46
     \<and> success (handleSubmit eng (Responded True scenario_response) ready_state) = None"
proof
  fix eng
  have "success (handleSubmit eng (Responded True contract_response) ready_state)
        = Some ''Identified as Salmon with 97.34% confidence''"
    by (simp add: submit_contract_response shown_state_def)
  moreover have "success (handleSubmit eng (Responded True scenario_response) ready_state) = None"
    by (simp add: submit_defs scenario_defs)
  ultimately show "success (handleSubmit eng (Responded True contract_response) ready_state)
        \<noteq> Some ''Identified as Salmon with 97.35% confidence''
     \<and> success (handleSubmit eng (Responded True contract_response) ready_state)
        = Some ''Identified as Salmon with 97.34% confidence''
     \<and> nearest_double (97345 / 1000) 6850045401974702 46
     \<and> double_97_345 = of_nat 6850045401974702 / 2 ^ 46
     \<and> success (handleSubmit eng (Responded True scenario_response) ready_state) = None"
    using scenario_doubles(1,2) by simp
qed

end
